theory Spec2Isabelle
  imports Main "HOL-Library.Word"
begin

section \<open>DataTypeDynamic: declaration of the type\<close>

subsection \<open>Outcomes of a call\<close>

text \<open>
  The error codes that \<^verbatim>\<open>DataTypeDynamic.cpp\<close> raises (its \<^verbatim>\<open>ErrorCodes\<close> namespace).
\<close>

datatype ErrorCodes = ILLEGAL_COLUMN | NUMBER_OF_ARGUMENTS_DOESNT_MATCH | UNEXPECTED_AST_STRUCTURE

text \<open>
  A call either returns, throws a \<^verbatim>\<open>DB::Exception\<close> with one of the codes above, or
  leaves defined behaviour: a member call through the null pointer that a failed
  \<^verbatim>\<open>as<T>()\<close> returns, an index past the end of \<^verbatim>\<open>children\<close>, or an
  \<^verbatim>\<open>assert_cast\<close> to the wrong class. Results are \<open>failure + 'a\<close>, with \<open>Inl\<close> the failure.
\<close>

datatype failure = Exception ErrorCodes | NullPointerDereference | IndexOutOfRange | BadCast

subsection \<open>The syntax tree handed to the constructor\<close>

text \<open>
  \<^verbatim>\<open>Field\<close> is the value of a literal, a tagged union; \<^verbatim>\<open>getType()\<close> names the
  alternative it holds. The validation only tells \<^verbatim>\<open>UInt64\<close> from the rest, of which the
  usual ones are listed (a \<^verbatim>\<open>Float64\<close> is kept as its text).
\<close>

datatype Field =
    Null
  | UInt64 "64 word"
  | Int64 "64 word"
  | Float64 string
  | String string

text \<open>
  The nodes of the tree: an identifier, a literal, a function with the children of its
  argument list, and any other node (a nested type, a name and type pair, ...).
\<close>

datatype IAST =
    ASTIdentifier string
  | ASTLiteral Field
  | ASTFunction string "IAST list"
  | ASTOther string

text \<open>\<^verbatim>\<open>node->as<T>()\<close>: the node as a \<^verbatim>\<open>T\<close>, or the null pointer.\<close>

fun as_ASTFunction :: "IAST \<Rightarrow> (string \<times> IAST list) option" where
  "as_ASTFunction (ASTFunction name children) = Some (name, children)"
| "as_ASTFunction _ = None"

fun as_ASTIdentifier :: "IAST \<Rightarrow> string option" where
  "as_ASTIdentifier (ASTIdentifier name) = Some name"
| "as_ASTIdentifier _ = None"

fun as_ASTLiteral :: "IAST \<Rightarrow> Field option" where
  "as_ASTLiteral (ASTLiteral v) = Some v"
| "as_ASTLiteral _ = None"

text \<open>\<^verbatim>\<open>children[i]\<close> of a \<^verbatim>\<open>std::vector\<close>: past the end it is undefined behaviour.\<close>

definition child :: "IAST list \<Rightarrow> nat \<Rightarrow> failure + IAST" where
  "child children i = (if i < length children then Inr (children ! i) else Inl IndexOutOfRange)"

subsection \<open>The type descriptor\<close>

text \<open>The class has one field, \<^verbatim>\<open>size_t max_dynamic_types\<close>.\<close>

datatype DataTypeDynamic = DataTypeDynamic (max_dynamic_types: "64 word")

text \<open>
  Modelled from the spec: \<^verbatim>\<open>ColumnVariant::MAX_NESTED_COLUMNS\<close> is declared in
  \<^verbatim>\<open>ColumnVariant.h\<close>; the spec gives the bound as 255, and so does the message of the
  exception raised at line 75.
\<close>

definition MAX_NESTED_COLUMNS :: "64 word" where
  "MAX_NESTED_COLUMNS = 255"

text \<open>
  \<^verbatim>\<open>create\<close> (lines 54 to 78). \<open>DEFAULT_MAX_DYNAMIC_TYPES\<close> is the constant of the header
  that the constructor's default argument names; it is a parameter here. The argument
  list is \<open>None\<close> for a null \<^verbatim>\<open>arguments\<close>, else its \<^verbatim>\<open>children\<close>. The last test
  (line 74) is the case on the literal's value: any alternative but \<^verbatim>\<open>UInt64\<close> fails
  \<^verbatim>\<open>getType() != Field::Types::UInt64\<close>, and \<^verbatim>\<open>safeGet<UInt64>()\<close> is read only after it.
\<close>

definition create :: "64 word \<Rightarrow> IAST list option \<Rightarrow> failure + DataTypeDynamic" where
  "create DEFAULT_MAX_DYNAMIC_TYPES arguments =
    (case arguments of
      None \<Rightarrow> Inr (DataTypeDynamic DEFAULT_MAX_DYNAMIC_TYPES)
    | Some children \<Rightarrow>
        if children = [] then Inr (DataTypeDynamic DEFAULT_MAX_DYNAMIC_TYPES)
        else if length children > 1 then Inl (Exception NUMBER_OF_ARGUMENTS_DOESNT_MATCH)
        else
          (case as_ASTFunction (children ! 0) of
            None \<Rightarrow> Inl (Exception UNEXPECTED_AST_STRUCTURE)
          | Some (name, argument_children) \<Rightarrow>
              if name \<noteq> ''equals'' then Inl (Exception UNEXPECTED_AST_STRUCTURE)
              else
                (case child argument_children 0 of
                  Inl f \<Rightarrow> Inl f
                | Inr lhs \<Rightarrow>
                    (case as_ASTIdentifier lhs of
                      None \<Rightarrow> Inl NullPointerDereference
                    | Some identifier_name \<Rightarrow>
                        if identifier_name \<noteq> ''max_types''
                        then Inl (Exception UNEXPECTED_AST_STRUCTURE)
                        else
                          (case child argument_children 1 of
                            Inl f \<Rightarrow> Inl f
                          | Inr rhs \<Rightarrow>
                              (case as_ASTLiteral rhs of
                                None \<Rightarrow> Inl (Exception UNEXPECTED_AST_STRUCTURE)
                              | Some v \<Rightarrow>
                                  (case v of
                                    UInt64 n \<Rightarrow>
                                      if n = 0 \<or> n > MAX_NESTED_COLUMNS
                                      then Inl (Exception UNEXPECTED_AST_STRUCTURE)
                                      else Inr (DataTypeDynamic n)
                                  | _ \<Rightarrow> Inl (Exception UNEXPECTED_AST_STRUCTURE))))))))"

subsection \<open>The printed name\<close>

text \<open>\<^verbatim>\<open>toString\<close> of an unsigned integer: its decimal digits, no leading zero.\<close>

definition digit :: "nat \<Rightarrow> char" where
  "digit d = char_of (48 + d)"

fun toString_nat :: "nat \<Rightarrow> string" where
  "toString_nat n = (if n < 10 then [digit n] else toString_nat (n div 10) @ [digit (n mod 10)])"

declare toString_nat.simps [simp del]

definition toString :: "64 word \<Rightarrow> string" where
  "toString w = toString_nat (unat w)"

text \<open>\<^verbatim>\<open>DataTypeDynamic::doGetName\<close> (lines 37 to 42).\<close>

definition doGetName :: "64 word \<Rightarrow> DataTypeDynamic \<Rightarrow> string" where
  "doGetName DEFAULT_MAX_DYNAMIC_TYPES t =
    (if max_dynamic_types t = DEFAULT_MAX_DYNAMIC_TYPES then ''Dynamic''
     else ''Dynamic(max_types='' @ toString (max_dynamic_types t) @ '')'')"

subsection \<open>Reading a declaration back\<close>

text \<open>
  Modelled from the spec: the parser of type names is not part of
  \<^verbatim>\<open>DataTypeDynamic.cpp\<close>. The spec's grammar of a declaration is \<^verbatim>\<open>Dynamic\<close> or
  \<^verbatim>\<open>Dynamic(max_types = N)\<close>, \<open>N\<close> an integer literal. The parser below reads that
  shape and builds the tree \<^verbatim>\<open>create\<close> inspects: an \<^verbatim>\<open>equals\<close> function over the
  identifier and the literal. It accepts any identifier and any literal that fits 64
  bits, and leaves the checks of the name and of the range to \<^verbatim>\<open>create\<close>.
\<close>

definition is_digit :: "char \<Rightarrow> bool" where
  "is_digit c = (48 \<le> (of_char c :: nat) \<and> (of_char c :: nat) \<le> 57)"

definition is_word_char :: "char \<Rightarrow> bool" where
  "is_word_char c =
    (let k = (of_char c :: nat)
     in (97 \<le> k \<and> k \<le> 122) \<or> (65 \<le> k \<and> k \<le> 90) \<or> (48 \<le> k \<and> k \<le> 57) \<or> k = 95)"

definition is_space :: "char \<Rightarrow> bool" where
  "is_space c = (c = CHR '' '')"

definition parseNumber :: "string \<Rightarrow> nat option" where
  "parseNumber s =
    (if s \<noteq> [] \<and> list_all is_digit s
     then Some (foldl (\<lambda>n c. 10 * n + (of_char c - 48)) 0 s)
     else None)"

definition parseDynamicArgument :: "string \<Rightarrow> IAST option" where
  "parseDynamicArgument s =
    (let identifier = takeWhile is_word_char s;
         after_identifier = dropWhile is_space (dropWhile is_word_char s)
     in if identifier = [] then None
        else
          (case after_identifier of
            [] \<Rightarrow> None
          | c # after_equals \<Rightarrow>
              if c \<noteq> CHR ''='' then None
              else
                (case parseNumber (dropWhile is_space after_equals) of
                  None \<Rightarrow> None
                | Some n \<Rightarrow>
                    if n < 2 ^ 64
                    then Some (ASTFunction ''equals''
                                [ASTIdentifier identifier, ASTLiteral (UInt64 (of_nat n))])
                    else None)))"

text \<open>
  The result is the argument list of the declaration (\<open>None\<close> when the name has no
  parentheses), or \<open>None\<close> when the text is not a declaration of the grammar.
\<close>

definition parseDynamic :: "string \<Rightarrow> IAST list option option" where
  "parseDynamic s =
    (if s = ''Dynamic'' then Some None
     else if take 8 s = ''Dynamic('' \<and> s \<noteq> ''Dynamic('' \<and> last s = CHR '')''
     then map_option (\<lambda>a. Some [a]) (parseDynamicArgument (butlast (drop 8 s)))
     else None)"

subsection \<open>The shapes of an argument list\<close>

text \<open>The tree of the argument \<^verbatim>\<open>max_types = v\<close>, for a literal \<open>v\<close>.\<close>

definition max_types_argument :: "Field \<Rightarrow> IAST" where
  "max_types_argument v = ASTFunction ''equals'' [ASTIdentifier ''max_types'', ASTLiteral v]"

text \<open>
  The spec's accepted shape, in its words: exactly one argument, an equality with the
  identifier \<^verbatim>\<open>max_types\<close> on the left and an integer literal between 1 and 255 on the
  right.
\<close>

fun spec_valid_argument :: "IAST \<Rightarrow> bool" where
  "spec_valid_argument (ASTFunction name [ASTIdentifier i, ASTLiteral (UInt64 n)]) =
     (name = ''equals'' \<and> i = ''max_types'' \<and> 1 \<le> n \<and> n \<le> 255)"
| "spec_valid_argument _ = False"

definition spec_valid_arguments :: "IAST list \<Rightarrow> bool" where
  "spec_valid_arguments children =
    (case children of [a] \<Rightarrow> spec_valid_argument a | _ \<Rightarrow> False)"

text \<open>
  An argument on which every read of \<^verbatim>\<open>create\<close> is defined: if it is an \<^verbatim>\<open>equals\<close>
  function, it has the two operands of the binary operator and the left one is an
  identifier (lines 68 and 72 read \<^verbatim>\<open>children[0]\<close> and \<^verbatim>\<open>children[1]\<close>, and line 68 calls
  \<^verbatim>\<open>name()\<close> on the result of the cast with no test).
\<close>

definition binary_with_identifier_lhs :: "IAST \<Rightarrow> bool" where
  "binary_with_identifier_lhs a =
    (case a of
      ASTFunction name operands \<Rightarrow>
        name \<noteq> ''equals'' \<or> (length operands = 2 \<and> as_ASTIdentifier (operands ! 0) \<noteq> None)
    | _ \<Rightarrow> True)"

section \<open>DataTypeDynamic: subcolumns\<close>

subsection \<open>Columns\<close>

text \<open>\<^verbatim>\<open>ColumnVariant::Discriminator\<close> is one byte.\<close>

type_synonym Discriminator = "8 word"

text \<open>
  Modelled from the spec: the column classes are declared outside
  \<^verbatim>\<open>DataTypeDynamic.cpp\<close>. A column is one of
  \<^item> a \<^verbatim>\<open>ColumnUInt8\<close>, with its bytes;
  \<^item> a column made by a data type (\<^verbatim>\<open>createColumn\<close>), kept as that type and its rows;
  \<^item> a \<^verbatim>\<open>ColumnDynamic\<close>, given by what the spec's Variant Storage Accessor exposes: the
    map of \<^verbatim>\<open>VariantInfo\<close> from a type name to its global discriminator
    (\<^verbatim>\<open>variant_name_to_discriminator\<close>), the variant's column for a global discriminator
    (\<^verbatim>\<open>getVariantPtrByGlobalDiscriminator\<close>), the local discriminator of a global one
    (\<^verbatim>\<open>localDiscriminatorByGlobal\<close>), and the array of the rows' local discriminators
    (\<^verbatim>\<open>getLocalDiscriminatorsPtr\<close>), one per row.
\<close>

datatype ('ty, 'v) column =
    ColumnUInt8 "8 word list"
  | Column 'ty "'v list"
  | ColumnDynamic
      "string \<Rightarrow> Discriminator option"
      "Discriminator \<Rightarrow> ('ty, 'v) column"
      "Discriminator \<Rightarrow> Discriminator"
      "Discriminator list"

text \<open>\<^verbatim>\<open>IColumn::size()\<close>: the number of rows.\<close>

fun column_size :: "('ty, 'v) column \<Rightarrow> nat" where
  "column_size (ColumnUInt8 bytes) = length bytes"
| "column_size (Column t rows) = length rows"
| "column_size (ColumnDynamic variant_info variants global_to_local local_discriminators) =
     length local_discriminators"

subsection \<open>Serializations and substream data\<close>

text \<open>
  A serialization is one of the engine's (\<open>'ser\<close>), or the wrapper this file builds at
  line 128 around a nested one, with the variant's type name and the null-map flag.
\<close>

datatype 'ser serialization =
    Serialization 'ser
  | SerializationDynamicElement "'ser serialization" string bool

text \<open>\<^verbatim>\<open>IDataType::SubstreamData\<close>: the column is a pointer that may be null.\<close>

record ('ty, 'ser, 'v) SubstreamData =
  serialization :: "'ser serialization"
  type :: 'ty
  column :: "('ty, 'v) column option"

subsection \<open>The collaborators\<close>

text \<open>
  What the resolver calls and this file does not define, taken as parameters:
  \<^verbatim>\<open>Nested::splitName\<close>; \<^verbatim>\<open>DataTypeFactory::instance().tryGet\<close>; of \<^verbatim>\<open>IDataType\<close>,
  \<^verbatim>\<open>getName\<close>, \<^verbatim>\<open>getDefaultSerialization\<close>, \<^verbatim>\<open>canBeInsideNullable\<close>,
  \<^verbatim>\<open>lowCardinality\<close>, \<^verbatim>\<open>getDefault\<close> and the static \<^verbatim>\<open>getSubcolumnData\<close>; the type
  \<^verbatim>\<open>DataTypeUInt8\<close>; \<^verbatim>\<open>makeNullableOrLowCardinalityNullableSafe\<close>; and \<^verbatim>\<open>create\<close> of the two
  subcolumn creators, after their constructor's arguments (the local discriminators, the
  variant's name, its global and its local discriminator and, for the second, the
  nullable flag).
\<close>

record ('ty, 'ser, 'v) env =
  splitName :: "string \<Rightarrow> string \<times> string"
  tryGet :: "string \<Rightarrow> 'ty option"
  getName :: "'ty \<Rightarrow> string"
  getDefaultSerialization :: "'ty \<Rightarrow> 'ser serialization"
  canBeInsideNullable :: "'ty \<Rightarrow> bool"
  lowCardinality :: "'ty \<Rightarrow> bool"
  getDefault :: "'ty \<Rightarrow> 'v"
  DataTypeUInt8 :: "'ty"
  makeNullableOrLowCardinalityNullableSafe :: "'ty \<Rightarrow> 'ty"
  getSubcolumnData ::
    "string \<Rightarrow> ('ty, 'ser, 'v) SubstreamData \<Rightarrow> bool
      \<Rightarrow> failure + ('ty, 'ser, 'v) SubstreamData option"
  VariantNullMapSubcolumnCreator ::
    "Discriminator list \<Rightarrow> string \<Rightarrow> Discriminator \<Rightarrow> Discriminator
      \<Rightarrow> ('ty, 'v) column \<Rightarrow> ('ty, 'v) column"
  VariantSubcolumnCreator ::
    "Discriminator list \<Rightarrow> string \<Rightarrow> Discriminator \<Rightarrow> Discriminator \<Rightarrow> bool
      \<Rightarrow> ('ty, 'v) column \<Rightarrow> ('ty, 'v) column"

subsection \<open>The resolver\<close>

text \<open>
  Lines 97 to 112: the result starts as the type and its default serialization, with no
  column. With a column supplied, it is cast to \<^verbatim>\<open>ColumnDynamic\<close> and the name of the type
  is looked up in its \<^verbatim>\<open>VariantInfo\<close>; when found, the discriminator is kept and the
  variant's column becomes the result's column.
\<close>

definition find_variant ::
  "('ty, 'ser, 'v) env \<Rightarrow> 'ty \<Rightarrow> ('ty, 'v) column option
    \<Rightarrow> failure + (('ty, 'ser, 'v) SubstreamData \<times> Discriminator option)" where
  "find_variant e subcolumn_type data_column =
    (let res = \<lparr>serialization = getDefaultSerialization e subcolumn_type,
                type = subcolumn_type, column = None\<rparr>
     in case data_column of
          None \<Rightarrow> Inr (res, None)
        | Some (ColumnDynamic variant_name_to_discriminator variants global_to_local locals) \<Rightarrow>
            (case variant_name_to_discriminator (getName e subcolumn_type) of
              None \<Rightarrow> Inr (res, None)
            | Some discriminator \<Rightarrow>
                Inr (res\<lparr>column := Some (variants discriminator)\<rparr>, Some discriminator))
        | Some _ \<Rightarrow> Inl BadCast)"

text \<open>Line 116.\<close>

definition is_null_map_subcolumn :: "string \<Rightarrow> bool" where
  "is_null_map_subcolumn subcolumn_nested_name = (subcolumn_nested_name = ''null'')"

text \<open>
  Lines 117 to 126: the null map has type \<^verbatim>\<open>UInt8\<close>; any other non-empty nested name is
  resolved by \<^verbatim>\<open>getSubcolumnData\<close> on the result so far, and replaces it.
\<close>

definition nested_subcolumn ::
  "('ty, 'ser, 'v) env \<Rightarrow> string \<Rightarrow> ('ty, 'ser, 'v) SubstreamData \<Rightarrow> bool
    \<Rightarrow> failure + ('ty, 'ser, 'v) SubstreamData option" where
  "nested_subcolumn e subcolumn_nested_name res throw_if_null =
    (if is_null_map_subcolumn subcolumn_nested_name then Inr (Some (res\<lparr>type := DataTypeUInt8 e\<rparr>))
     else if subcolumn_nested_name \<noteq> [] then getSubcolumnData e subcolumn_nested_name res throw_if_null
     else Inr (Some res))"

text \<open>
  Lines 134 to 171, with the column of the call. Both creators read the column they are
  given, which is null only if the nested resolver dropped it. Without a discriminator
  the column is built here: \<^verbatim>\<open>resize_fill(size, 1)\<close> on an empty \<^verbatim>\<open>ColumnUInt8\<close>, or
  \<^verbatim>\<open>createColumn()\<close> of the result's type and \<^verbatim>\<open>insertManyDefaults(size)\<close>.
\<close>

definition materialize ::
  "('ty, 'ser, 'v) env \<Rightarrow> ('ty, 'v) column option \<Rightarrow> Discriminator option \<Rightarrow> bool \<Rightarrow> bool
    \<Rightarrow> ('ty, 'ser, 'v) SubstreamData \<Rightarrow> failure + ('ty, 'ser, 'v) SubstreamData option" where
  "materialize e data_column discriminator is_null_map make_subcolumn_nullable res =
    (case data_column of
      None \<Rightarrow> Inr (Some res)
    | Some dynamic_column \<Rightarrow>
        (case discriminator of
          Some d \<Rightarrow>
            (case dynamic_column of
              ColumnDynamic variant_name_to_discriminator variants global_to_local locals \<Rightarrow>
                (case column res of
                  None \<Rightarrow> Inl NullPointerDereference
                | Some prev \<Rightarrow>
                    Inr (Some (res\<lparr>column := Some
                      (if is_null_map
                       then VariantNullMapSubcolumnCreator e locals [] d (global_to_local d) prev
                       else VariantSubcolumnCreator e locals [] d (global_to_local d)
                              make_subcolumn_nullable prev)\<rparr>)))
            | _ \<Rightarrow> Inl BadCast)
        | None \<Rightarrow>
            if is_null_map
            then Inr (Some (res\<lparr>column := Some (ColumnUInt8 (replicate (column_size dynamic_column) 1))\<rparr>))
            else Inr (Some (res\<lparr>column := Some
                   (Column (type res)
                      (replicate (column_size dynamic_column) (getDefault e (type res))))\<rparr>))))"

text \<open>
  \<^verbatim>\<open>DataTypeDynamic::getDynamicSubcolumnData\<close> (lines 85 to 174). The result is \<open>Inl\<close> for
  an exception, \<open>Inr None\<close> for the null pointer, \<open>Inr (Some res)\<close> for a descriptor.
\<close>

definition getDynamicSubcolumnData ::
  "('ty, 'ser, 'v) env \<Rightarrow> string \<Rightarrow> ('ty, 'ser, 'v) SubstreamData \<Rightarrow> bool
    \<Rightarrow> failure + ('ty, 'ser, 'v) SubstreamData option" where
  "getDynamicSubcolumnData e subcolumn_name data throw_if_null =
    (case splitName e subcolumn_name of
      (subcolumn_type_name, subcolumn_nested_name) \<Rightarrow>
        (case tryGet e subcolumn_type_name of
          None \<Rightarrow> if throw_if_null then Inl (Exception ILLEGAL_COLUMN) else Inr None
        | Some subcolumn_type \<Rightarrow>
            (case find_variant e subcolumn_type (column data) of
              Inl f \<Rightarrow> Inl f
            | Inr (res, discriminator) \<Rightarrow>
                (case nested_subcolumn e subcolumn_nested_name res throw_if_null of
                  Inl f \<Rightarrow> Inl f
                | Inr None \<Rightarrow> Inr None
                | Inr (Some nested) \<Rightarrow>
                    (let is_null_map = is_null_map_subcolumn subcolumn_nested_name;
                         wrapped = nested\<lparr>serialization :=
                           SerializationDynamicElement (serialization nested)
                             (getName e subcolumn_type) is_null_map\<rparr>;
                         make_subcolumn_nullable =
                           (canBeInsideNullable e subcolumn_type \<or> lowCardinality e subcolumn_type);
                         typed =
                           (if \<not> is_null_map \<and> make_subcolumn_nullable
                            then wrapped\<lparr>type :=
                              makeNullableOrLowCardinalityNullableSafe e (type wrapped)\<rparr>
                            else wrapped)
                     in materialize e (column data) discriminator is_null_map
                          make_subcolumn_nullable typed)))))"

subsection \<open>What the claims assume of the collaborators\<close>

text \<open>
  The nested resolver returns a column only when it is given one (it derives the
  subcolumn's column from the column of its argument).
\<close>

definition nested_keeps_no_column :: "('ty, 'ser, 'v) env \<Rightarrow> bool" where
  "nested_keeps_no_column e =
    (\<forall>name res throw_if_null nested.
       getSubcolumnData e name res throw_if_null = Inr (Some nested) \<and> column res = None
         \<longrightarrow> column nested = None)"

text \<open>
  The spec's table of the materializer: both creators produce one value for each row, that
  is, for each entry of the local discriminators.
\<close>

definition creators_row_aligned :: "('ty, 'ser, 'v) env \<Rightarrow> bool" where
  "creators_row_aligned e =
    (\<forall>locals name global local make_nullable prev.
       column_size (VariantNullMapSubcolumnCreator e locals name global local prev) = length locals
       \<and> column_size (VariantSubcolumnCreator e locals name global local make_nullable prev)
           = length locals)"

text \<open>
  The nullability policy in the spec's words (step 6 of its resolver): unless the leaf is
  the null map, a resolved type that can be inside Nullable, or is low-cardinality, is
  wrapped; the predicates are read on the resolved type.
\<close>

definition spec_semantic_type :: "('ty, 'ser, 'v) env \<Rightarrow> bool \<Rightarrow> 'ty \<Rightarrow> 'ty" where
  "spec_semantic_type e is_null_map resolved =
    (if \<not> is_null_map \<and> (canBeInsideNullable e resolved \<or> lowCardinality e resolved)
     then makeNullableOrLowCardinalityNullableSafe e resolved
     else resolved)"

subsection \<open>A small registry, for examples\<close>

text \<open>
  A concrete instance of the collaborators, used to evaluate the resolver. A type is its
  name, a value is its text. The registry knows a few scalar types and
  \<^verbatim>\<open>Tuple(a UInt32)\<close>, which cannot be inside Nullable and has the subcolumn \<^verbatim>\<open>a\<close> of type
  \<^verbatim>\<open>UInt32\<close>. Names are split at the first dot, unless it is the first or the last
  character.
\<close>

definition demo_splitName :: "string \<Rightarrow> string \<times> string" where
  "demo_splitName name =
    (let head = takeWhile (\<lambda>c. c \<noteq> CHR ''.'') name;
         rest = dropWhile (\<lambda>c. c \<noteq> CHR ''.'') name
     in if rest = [] \<or> head = [] \<or> tl rest = [] then (name, []) else (head, tl rest))"

definition demo_scalars :: "string list" where
  "demo_scalars = [''String'', ''UInt8'', ''UInt32'', ''Int64'', ''Float64'']"

definition demo_tryGet :: "string \<Rightarrow> string option" where
  "demo_tryGet name =
    (if name \<in> set demo_scalars \<or> name = ''Tuple(a UInt32)'' then Some name else None)"

definition demo_canBeInsideNullable :: "string \<Rightarrow> bool" where
  "demo_canBeInsideNullable t = (t \<in> set demo_scalars)"

definition demo_makeNullable :: "string \<Rightarrow> string" where
  "demo_makeNullable t = (if demo_canBeInsideNullable t then ''Nullable('' @ t @ '')'' else t)"

definition demo_getDefault :: "string \<Rightarrow> string" where
  "demo_getDefault t =
    (if t = ''String'' then []
     else if t = ''Tuple(a UInt32)'' then ''(0)''
     else if take 9 t = ''Nullable('' then ''NULL''
     else ''0'')"

definition demo_getSubcolumnData ::
  "string \<Rightarrow> (string, string, string) SubstreamData \<Rightarrow> bool
    \<Rightarrow> failure + (string, string, string) SubstreamData option" where
  "demo_getSubcolumnData name res throw_if_null =
    (if type res = ''Tuple(a UInt32)'' \<and> name = ''a''
     then Inr (Some \<lparr>serialization = Serialization ''TupleElement(a)'', type = ''UInt32'',
                      column = (case column res of
                                  Some (Column t rows) \<Rightarrow>
                                    Some (Column ''UInt32''
                                      (map (filter (\<lambda>c. c \<noteq> CHR ''('' \<and> c \<noteq> CHR '')'')) rows))
                                | other \<Rightarrow> other)\<rparr>)
     else if throw_if_null then Inl (Exception ILLEGAL_COLUMN)
     else Inr None)"

definition demo_null_map ::
  "Discriminator list \<Rightarrow> string \<Rightarrow> Discriminator \<Rightarrow> Discriminator
    \<Rightarrow> (string, string) column \<Rightarrow> (string, string) column" where
  "demo_null_map locals name global local prev =
    ColumnUInt8 (map (\<lambda>d. if d \<noteq> local then 1 else 0) locals)"

fun demo_expand :: "Discriminator \<Rightarrow> 'a \<Rightarrow> Discriminator list \<Rightarrow> 'a list \<Rightarrow> 'a list" where
  "demo_expand local filler [] rows = []"
| "demo_expand local filler (d # ds) rows =
     (if d = local
      then (case rows of
              [] \<Rightarrow> filler # demo_expand local filler ds []
            | r # rs \<Rightarrow> r # demo_expand local filler ds rs)
      else filler # demo_expand local filler ds rows)"

definition demo_variant_element ::
  "Discriminator list \<Rightarrow> string \<Rightarrow> Discriminator \<Rightarrow> Discriminator \<Rightarrow> bool
    \<Rightarrow> (string, string) column \<Rightarrow> (string, string) column" where
  "demo_variant_element locals name global local make_nullable prev =
    (case prev of
      Column t rows \<Rightarrow>
        Column (if make_nullable then demo_makeNullable t else t)
          (demo_expand local (if make_nullable then ''NULL'' else demo_getDefault t) locals rows)
    | ColumnUInt8 bytes \<Rightarrow> ColumnUInt8 (demo_expand local 0 locals bytes)
    | ColumnDynamic vi vs g2l ls \<Rightarrow> ColumnUInt8 (map (\<lambda>d. 0) locals))"

definition demo :: "(string, string, string) env" where
  "demo =
    \<lparr>splitName = demo_splitName,
     tryGet = demo_tryGet,
     getName = (\<lambda>t. t),
     getDefaultSerialization = Serialization,
     canBeInsideNullable = demo_canBeInsideNullable,
     lowCardinality = (\<lambda>t. False),
     getDefault = demo_getDefault,
     DataTypeUInt8 = ''UInt8'',
     makeNullableOrLowCardinalityNullableSafe = demo_makeNullable,
     getSubcolumnData = demo_getSubcolumnData,
     VariantNullMapSubcolumnCreator = demo_null_map,
     VariantSubcolumnCreator = demo_variant_element\<rparr>"

text \<open>Another nested resolver, which answers every name with its argument.\<close>

definition demo_echo ::
  "string \<Rightarrow> (string, string, string) SubstreamData \<Rightarrow> bool
    \<Rightarrow> failure + (string, string, string) SubstreamData option" where
  "demo_echo name res throw_if_null = Inr (Some res)"

text \<open>
  A call with types only, and a Dynamic column of five rows that has seen \<^verbatim>\<open>Int64\<close>
  (rows 0, 2 and 3) and \<^verbatim>\<open>String\<close> (rows 1 and 4), the scenario of the spec.
\<close>

definition demo_types_only :: "(string, string, string) SubstreamData" where
  "demo_types_only = \<lparr>serialization = Serialization ''Dynamic'', type = ''Dynamic'', column = None\<rparr>"

definition demo_column :: "(string, string) column" where
  "demo_column =
    ColumnDynamic
      [''Int64'' \<mapsto> 0, ''String'' \<mapsto> 1]
      (\<lambda>d. if d = 0 then Column ''Int64'' [''7'', ''8'', ''9''] else Column ''String'' [''x'', ''y''])
      (\<lambda>d. d)
      [0, 1, 0, 0, 1]"

definition demo_with_column :: "(string, string, string) SubstreamData" where
  "demo_with_column =
    \<lparr>serialization = Serialization ''Dynamic'', type = ''Dynamic'', column = Some demo_column\<rparr>"

section \<open>Properties of the declaration\<close>

lemma word_ge1: "(1 \<le> (n::64 word)) = (n \<noteq> 0)"
  by (simp add: word_le_nat_alt unat_eq_0 Suc_le_eq unat_gt_0)

lemma create_one:
  "create dflt (Some [max_types_argument v]) =
    (case v of
      UInt64 n \<Rightarrow>
        if n = 0 \<or> n > 255 then Inl (Exception UNEXPECTED_AST_STRUCTURE)
        else Inr (DataTypeDynamic n)
    | _ \<Rightarrow> Inl (Exception UNEXPECTED_AST_STRUCTURE))"
  by (simp add: create_def child_def max_types_argument_def MAX_NESTED_COLUMNS_def
      split: Field.splits)

lemma create_Inr_bound:
  "create dflt arguments = Inr t \<Longrightarrow>
     max_dynamic_types t = dflt \<or> (max_dynamic_types t \<noteq> 0 \<and> max_dynamic_types t \<le> 255)"
  by (auto simp: create_def child_def MAX_NESTED_COLUMNS_def not_less
      split: option.splits if_splits sum.splits Field.splits prod.splits)

text \<open>
  The malformed shapes that \<^verbatim>\<open>create\<close> tests for. A non-empty list that is not the valid
  shape, and on which the reads of lines 68 and 72 are defined, raises an exception:
  \<^verbatim>\<open>NUMBER_OF_ARGUMENTS_DOESNT_MATCH\<close> for more than one argument,
  \<^verbatim>\<open>UNEXPECTED_AST_STRUCTURE\<close> for a single malformed one.
\<close>

lemma create_rejects_where_reads_are_defined:
  assumes "children \<noteq> []" and "\<not> spec_valid_arguments children"
    and "\<forall>a. children = [a] \<longrightarrow> binary_with_identifier_lhs a"
  shows "create dflt (Some children) =
          Inl (Exception (if length children > 1 then NUMBER_OF_ARGUMENTS_DOESNT_MATCH
                          else UNEXPECTED_AST_STRUCTURE))"
proof (cases "length children > 1")
  case True
  with assms(1) show ?thesis by (simp add: create_def)
next
  case False
  with assms(1) obtain a where a: "children = [a]"
    by (cases children) auto
  from assms(3) a have b: "binary_with_identifier_lhs a" by simp
  from assms(2) a have nv: "\<not> spec_valid_argument a" by (simp add: spec_valid_arguments_def)
  show ?thesis
  proof (cases a)
    case (ASTFunction name operands)
    show ?thesis
    proof (cases "name = ''equals''")
      case True
      with b ASTFunction obtain x y where ops: "operands = [x, y]" and "as_ASTIdentifier x \<noteq> None"
        by (auto simp: binary_with_identifier_lhs_def length_Suc_conv numeral_2_eq_2)
      then obtain i where x: "x = ASTIdentifier i" by (cases x) auto
      from nv show ?thesis unfolding a ASTFunction ops x True
        by (cases y; simp add: create_def child_def MAX_NESTED_COLUMNS_def word_ge1 split: Field.splits)
         (auto simp: word_ge1 not_less)
    next
      case False
      then show ?thesis by (simp add: a ASTFunction create_def)
    qed
  qed (simp_all add: a create_def)
qed

text \<open>
  The cast of line 68 has no test: whenever the left operand of the equality is not an
  identifier, \<^verbatim>\<open>as<ASTIdentifier>()\<close> returns null and \<^verbatim>\<open>name()\<close> is called on it.
\<close>

lemma create_unchecked_cast:
  "as_ASTIdentifier lhs = None \<Longrightarrow>
     create dflt (Some [ASTFunction ''equals'' (lhs # operands)]) = Inl NullPointerDereference"
  by (simp add: create_def child_def)

text \<open>
  Claim C3. The claim has every malformed argument list, a non-identifier left-hand
  side among them, reach an error branch without a crash. The code at
  \<^verbatim>\<open>Dynamic(1 = 5)\<close>: the left operand is a literal, the cast of line 68 returns null and
  the call of \<^verbatim>\<open>name()\<close> dereferences it; no exception is raised. The right operand is
  cast the same way at line 72 and tested at line 74: with a non-literal there
  (\<^verbatim>\<open>max_types = five\<close>) the exception \<^verbatim>\<open>UNEXPECTED_AST_STRUCTURE\<close> is raised.
\<close>

theorem create_non_identifier_lhs:
  "create dflt (Some [ASTFunction ''equals'' [ASTLiteral (UInt64 1), ASTLiteral (UInt64 5)]])
     = Inl NullPointerDereference
   \<and> create dflt (Some [ASTFunction ''equals'' [ASTIdentifier ''max_types'', ASTIdentifier ''five'']])
     = Inl (Exception UNEXPECTED_AST_STRUCTURE)"
  by (simp add: create_def child_def)

text \<open>
  Claim C5. With no argument list, or an empty one, \<^verbatim>\<open>create\<close> returns the descriptor
  with the default bound. With the one argument \<^verbatim>\<open>max_types = N\<close> it returns the
  descriptor with bound \<open>N\<close> for every \<open>N\<close> from 1 to 255, and raises
  \<^verbatim>\<open>UNEXPECTED_AST_STRUCTURE\<close> for \<open>N = 0\<close>, for every \<open>N\<close> above 255, and for every
  literal that is not a \<^verbatim>\<open>UInt64\<close> (a negative number, a number past 64 bits, a string).
\<close>

theorem create_bounds:
  "create dflt None = Inr (DataTypeDynamic dflt)
   \<and> create dflt (Some []) = Inr (DataTypeDynamic dflt)
   \<and> (\<forall>n. 1 \<le> n \<and> n \<le> 255 \<longrightarrow>
         create dflt (Some [max_types_argument (UInt64 n)]) = Inr (DataTypeDynamic n))
   \<and> create dflt (Some [max_types_argument (UInt64 0)]) = Inl (Exception UNEXPECTED_AST_STRUCTURE)
   \<and> (\<forall>n. 255 < n \<longrightarrow>
         create dflt (Some [max_types_argument (UInt64 n)]) = Inl (Exception UNEXPECTED_AST_STRUCTURE))
   \<and> (\<forall>v. (\<forall>n. v \<noteq> UInt64 n) \<longrightarrow>
         create dflt (Some [max_types_argument v]) = Inl (Exception UNEXPECTED_AST_STRUCTURE))"
proof -
  have "create dflt None = Inr (DataTypeDynamic dflt)"
    and "create dflt (Some []) = Inr (DataTypeDynamic dflt)"
    by (simp_all add: create_def)
  moreover have "create dflt (Some [max_types_argument (UInt64 n)]) = Inr (DataTypeDynamic n)"
    if "1 \<le> n \<and> n \<le> 255" for n
    using that by (auto simp: create_one word_ge1)
  moreover have "create dflt (Some [max_types_argument (UInt64 n)]) =
      Inl (Exception UNEXPECTED_AST_STRUCTURE)" if "n = 0 \<or> 255 < n" for n
    using that by (auto simp: create_one)
  moreover have "create dflt (Some [max_types_argument v]) =
      Inl (Exception UNEXPECTED_AST_STRUCTURE)" if "\<forall>n. v \<noteq> UInt64 n" for v
    using that by (cases v) (simp_all add: create_one)
  ultimately show ?thesis by simp
qed

theorem create_bounds_witness:
  "create 32 None = Inr (DataTypeDynamic 32)
   \<and> create 32 (Some [max_types_argument (UInt64 1)]) = Inr (DataTypeDynamic 1)
   \<and> create 32 (Some [max_types_argument (UInt64 255)]) = Inr (DataTypeDynamic 255)
   \<and> create 32 (Some [max_types_argument (UInt64 256)]) = Inl (Exception UNEXPECTED_AST_STRUCTURE)
   \<and> create 32 (Some [max_types_argument (Int64 (- 1))]) = Inl (Exception UNEXPECTED_AST_STRUCTURE)"
  using create_bounds [of 32] by simp

subsection \<open>Printing a bound and reading it back\<close>

lemma of_char_digit: "d < 10 \<Longrightarrow> (of_char (digit d) :: nat) = 48 + d"
  by (simp add: digit_def)

lemma is_digit_digit: "d < 10 \<Longrightarrow> is_digit (digit d)"
  by (simp add: is_digit_def of_char_digit)

lemma toString_nat_not_Nil: "toString_nat n \<noteq> []"
  by (subst toString_nat.simps) simp

lemma toString_nat_digits: "list_all is_digit (toString_nat n)"
proof (induction n rule: toString_nat.induct)
  case (1 n)
  show ?case
    by (subst toString_nat.simps) (use 1 in \<open>simp add: is_digit_digit\<close>)
qed

lemma toString_nat_value:
  "foldl (\<lambda>n c. 10 * n + (of_char c - 48)) 0 (toString_nat n) = n"
proof (induction n rule: toString_nat.induct)
  case (1 n)
  show ?case
    by (subst toString_nat.simps) (use 1 in \<open>simp add: of_char_digit\<close>)
qed

lemma parseNumber_toString_nat: "parseNumber (toString_nat n) = Some n"
  by (simp add: parseNumber_def toString_nat_not_Nil toString_nat_digits toString_nat_value)

lemma digits_no_space: "list_all is_digit ds \<Longrightarrow> dropWhile is_space ds = ds"
  by (cases ds) (auto simp: is_digit_def is_space_def)

lemma parseDynamicArgument_printed:
  "n < 2 ^ 64 \<Longrightarrow> parseDynamicArgument (''max_types='' @ toString_nat n) =
     Some (ASTFunction ''equals'' [ASTIdentifier ''max_types'', ASTLiteral (UInt64 (of_nat n))])"
  by (simp add: parseDynamicArgument_def is_word_char_def is_space_def
      digits_no_space toString_nat_digits parseNumber_toString_nat)

lemma parseDynamic_printed:
  "n < 2 ^ 64 \<Longrightarrow> parseDynamic (''Dynamic(max_types='' @ toString_nat n @ '')'') =
     Some (Some [ASTFunction ''equals'' [ASTIdentifier ''max_types'', ASTLiteral (UInt64 (of_nat n))]])"
  using parseDynamicArgument_printed [of n]
  by (simp add: parseDynamic_def butlast_append toString_nat_not_Nil)

text \<open>
  Claim C10. For every bound \<open>b\<close> the printed name is \<^verbatim>\<open>Dynamic\<close> exactly when \<open>b\<close> is the
  default maximum, and \<^verbatim>\<open>Dynamic(max_types=b)\<close>, with \<open>b\<close> in decimal, otherwise. For every
  descriptor that \<^verbatim>\<open>create\<close> returns, reading its printed name back as a declaration
  and giving the argument list to \<^verbatim>\<open>create\<close> returns the same descriptor.
\<close>

theorem doGetName_round_trip:
  "(doGetName dflt (DataTypeDynamic b) = ''Dynamic'' \<longleftrightarrow> b = dflt)
   \<and> (b \<noteq> dflt \<longrightarrow>
        doGetName dflt (DataTypeDynamic b) = ''Dynamic(max_types='' @ toString b @ '')'')
   \<and> (create dflt arguments = Inr t \<longrightarrow>
        map_option (create dflt) (parseDynamic (doGetName dflt t)) = Some (Inr t))"
proof -
  have name: "doGetName dflt (DataTypeDynamic b) = ''Dynamic'' \<longleftrightarrow> b = dflt"
    by (simp add: doGetName_def)
  have printed: "b \<noteq> dflt \<longrightarrow>
      doGetName dflt (DataTypeDynamic b) = ''Dynamic(max_types='' @ toString b @ '')''"
    by (simp add: doGetName_def)
  have reread: "map_option (create dflt) (parseDynamic (doGetName dflt t)) = Some (Inr t)"
    if ok: "create dflt arguments = Inr t"
  proof (cases "max_dynamic_types t = dflt")
    case True
    then have "t = DataTypeDynamic dflt" by (cases t) simp
    then show ?thesis
      by (simp add: doGetName_def parseDynamic_def create_def)
  next
    case False
    obtain n where t: "t = DataTypeDynamic n" by (cases t)
    from create_Inr_bound [OF ok] False t have n: "n \<noteq> 0" "n \<le> 255" by simp_all
    have "unat n < 2 ^ 64" using unsigned_less [of n] by simp
    from parseDynamic_printed [OF this]
    have "parseDynamic (''Dynamic(max_types='' @ toString n @ '')'') =
        Some (Some [ASTFunction ''equals'' [ASTIdentifier ''max_types'', ASTLiteral (UInt64 n)]])"
      by (simp add: toString_def)
    with False t n show ?thesis
      by (simp add: doGetName_def create_def child_def MAX_NESTED_COLUMNS_def not_less)
  qed
  from name printed reread show ?thesis by blast
qed

theorem doGetName_round_trip_witness:
  "doGetName 32 (DataTypeDynamic 17) = ''Dynamic(max_types=17)''
   \<and> create 32 (Some [max_types_argument (UInt64 17)]) = Inr (DataTypeDynamic 17)
   \<and> map_option (create 32) (parseDynamic (doGetName 32 (DataTypeDynamic 17)))
       = Some (Inr (DataTypeDynamic 17))"
proof -
  have c: "create 32 (Some [max_types_argument (UInt64 17)]) = Inr (DataTypeDynamic 17)"
    by (simp add: create_def child_def max_types_argument_def MAX_NESTED_COLUMNS_def)
  have s: "toString 17 = ''17''"
    by code_simp
  note r = doGetName_round_trip
    [of 32 17 "Some [max_types_argument (UInt64 17)]" "DataTypeDynamic 17"]
  from r s have n: "doGetName 32 (DataTypeDynamic 17) = ''Dynamic(max_types=17)''"
    by simp
  from r c have "map_option (create 32) (parseDynamic (doGetName 32 (DataTypeDynamic 17)))
      = Some (Inr (DataTypeDynamic 17))"
    by blast
  with n c show ?thesis by blast
qed

section \<open>Properties of the resolver\<close>

subsection \<open>The phases\<close>

lemma materialize_keeps:
  "materialize e dc d is_null mk res = Inr (Some r) \<Longrightarrow>
     type r = type res \<and> serialization r = serialization res"
  by (auto simp: materialize_def split: option.splits column.splits if_splits)

lemma materialize_no_column:
  "materialize e None d is_null mk res = Inr (Some res)"
  by (simp add: materialize_def)

lemma materialize_size:
  "creators_row_aligned e \<Longrightarrow> materialize e (Some inst) d is_null mk res = Inr (Some r) \<Longrightarrow>
     \<exists>c. column r = Some c \<and> column_size c = column_size inst"
  by (auto simp: materialize_def creators_row_aligned_def
      split: option.splits column.splits if_splits)

lemma materialize_unseen:
  "materialize e (Some inst) None is_null mk res =
     Inr (Some (res\<lparr>column := Some
        (if is_null then ColumnUInt8 (replicate (column_size inst) 1)
         else Column (type res) (replicate (column_size inst) (getDefault e (type res))))\<rparr>))"
  by (simp add: materialize_def)

lemma find_variant_type:
  "find_variant e t dc = Inr (res, d) \<Longrightarrow>
     type res = t \<and> serialization res = getDefaultSerialization e t"
  by (auto simp: find_variant_def Let_def split: option.splits column.splits)

lemma find_variant_no_column:
  "find_variant e t None =
     Inr (\<lparr>serialization = getDefaultSerialization e t, type = t, column = None\<rparr>, None)"
  by (simp add: find_variant_def)

lemma find_variant_unseen:
  "vi (getName e t) = None \<Longrightarrow> find_variant e t (Some (ColumnDynamic vi vs g2l locals)) =
     Inr (\<lparr>serialization = getDefaultSerialization e t, type = t, column = None\<rparr>, None)"
  by (simp add: find_variant_def)

lemma nested_subcolumn_null:
  "nested_subcolumn e ''null'' res thr = Inr (Some (res\<lparr>type := DataTypeUInt8 e\<rparr>))"
  by (simp add: nested_subcolumn_def is_null_map_subcolumn_def)

lemma nested_subcolumn_empty: "nested_subcolumn e [] res thr = Inr (Some res)"
  by (simp add: nested_subcolumn_def is_null_map_subcolumn_def)

lemma nested_subcolumn_other:
  "tail \<noteq> ''null'' \<Longrightarrow> tail \<noteq> [] \<Longrightarrow>
     nested_subcolumn e tail res thr = getSubcolumnData e tail res thr"
  by (simp add: nested_subcolumn_def is_null_map_subcolumn_def)

lemma nested_subcolumn_no_column:
  "nested_keeps_no_column e \<Longrightarrow> nested_subcolumn e tail res thr = Inr (Some nested) \<Longrightarrow>
     column res = None \<Longrightarrow> column nested = None"
  by (auto simp: nested_subcolumn_def nested_keeps_no_column_def split: if_splits)

lemma find_variant_any_nested:
  "find_variant (e\<lparr>getSubcolumnData := g\<rparr>) t dc = find_variant e t dc"
  by (simp add: find_variant_def Let_def split: option.splits column.splits)

lemma materialize_any_nested:
  "materialize (e\<lparr>getSubcolumnData := g\<rparr>) dc d is_null mk res
     = materialize e dc d is_null mk res"
  by (simp add: materialize_def split: option.splits column.splits)

text \<open>The resolver when the head is not in the registry, and when it is.\<close>

lemma resolver_unknown:
  "splitName e path = (head, tail) \<Longrightarrow> tryGet e head = None \<Longrightarrow>
     getDynamicSubcolumnData e path data thr =
       (if thr then Inl (Exception ILLEGAL_COLUMN) else Inr None)"
  by (simp add: getDynamicSubcolumnData_def)

lemma resolver_found:
  "splitName e path = (head, tail) \<Longrightarrow> tryGet e head = Some t \<Longrightarrow>
   getDynamicSubcolumnData e path data thr =
     (case find_variant e t (column data) of
        Inl f \<Rightarrow> Inl f
      | Inr (res, d) \<Rightarrow>
          (case nested_subcolumn e tail res thr of
             Inl f \<Rightarrow> Inl f
           | Inr None \<Rightarrow> Inr None
           | Inr (Some nested) \<Rightarrow>
               materialize e (column data) d (tail = ''null'')
                 (canBeInsideNullable e t \<or> lowCardinality e t)
                 (nested\<lparr>serialization :=
                     SerializationDynamicElement (serialization nested) (getName e t)
                       (tail = ''null''),
                   type :=
                     if tail \<noteq> ''null'' \<and> (canBeInsideNullable e t \<or> lowCardinality e t)
                     then makeNullableOrLowCardinalityNullableSafe e (type nested)
                     else type nested\<rparr>)))"
  by (simp add: getDynamicSubcolumnData_def is_null_map_subcolumn_def Let_def
      split: sum.splits option.splits prod.splits)

lemma resolver_descriptor_found:
  assumes "splitName e path = (head, tail)"
    and "getDynamicSubcolumnData e path data thr = Inr (Some r)"
  shows "\<exists>t. tryGet e head = Some t"
  using assms by (cases "tryGet e head") (auto simp: resolver_unknown split: if_splits)

lemma resolver_null_any_nested:
  assumes "snd (splitName e path) = ''null''"
  shows "getDynamicSubcolumnData (e\<lparr>getSubcolumnData := g\<rparr>) path data thr
           = getDynamicSubcolumnData e path data thr"
proof -
  obtain head where sp: "splitName e path = (head, ''null'')"
    using assms by (cases "splitName e path") simp
  show ?thesis
  proof (cases "tryGet e head")
    case None
    with sp show ?thesis
      by (simp add: resolver_unknown)
  next
    case (Some t)
    have "tryGet (e\<lparr>getSubcolumnData := g\<rparr>) head = Some t"
      and "splitName (e\<lparr>getSubcolumnData := g\<rparr>) path = (head, ''null'')"
      using Some sp by simp_all
    from resolver_found [OF this(2,1)] resolver_found [OF sp Some]
    show ?thesis
      by (simp add: find_variant_any_nested materialize_any_nested nested_subcolumn_null
          split: sum.splits prod.splits)
  qed
qed

subsection \<open>The small registry, evaluated\<close>

lemmas demo_simps = demo_def demo_splitName_def demo_tryGet_def demo_scalars_def
  demo_canBeInsideNullable_def demo_makeNullable_def demo_getDefault_def
  demo_getSubcolumnData_def demo_null_map_def demo_variant_element_def demo_echo_def
  demo_types_only_def demo_with_column_def demo_column_def

lemmas resolver_simps = getDynamicSubcolumnData_def find_variant_def nested_subcolumn_def
  is_null_map_subcolumn_def materialize_def

lemma length_demo_expand: "length (demo_expand local filler locals rows) = length locals"
  by (induction locals arbitrary: rows) (auto split: list.splits)

lemma demo_nested_keeps_no_column: "nested_keeps_no_column demo"
  by (auto simp: nested_keeps_no_column_def demo_def demo_getSubcolumnData_def split: if_splits)

lemma demo_creators_row_aligned: "creators_row_aligned demo"
  by (auto simp: creators_row_aligned_def demo_def demo_null_map_def demo_variant_element_def
      length_demo_expand split: column.splits)

lemma demo_tuple_element:
  "getDynamicSubcolumnData demo ''Tuple(a UInt32).a'' demo_types_only False =
     Inr (Some \<lparr>serialization =
                  SerializationDynamicElement (Serialization ''TupleElement(a)'')
                    ''Tuple(a UInt32)'' False,
                type = ''UInt32'', column = None\<rparr>)"
  by (simp add: demo_simps resolver_simps)

lemma demo_null_then_more:
  "getDynamicSubcolumnData demo ''String.null.x'' demo_with_column False = Inr None"
  by (simp add: demo_simps resolver_simps)

lemma demo_null_then_more_echo:
  "getDynamicSubcolumnData (demo\<lparr>getSubcolumnData := demo_echo\<rparr>) ''String.null.x''
      demo_with_column False =
     Inr (Some \<lparr>serialization =
                  SerializationDynamicElement (Serialization ''String'') ''String'' False,
                type = ''Nullable(String)'',
                column = Some (Column ''Nullable(String)''
                                 [''NULL'', ''x'', ''NULL'', ''NULL'', ''y''])\<rparr>)"
  by (simp add: demo_simps resolver_simps)

lemma demo_seen_null_map:
  "getDynamicSubcolumnData demo ''String.null'' demo_with_column False =
     Inr (Some \<lparr>serialization =
                  SerializationDynamicElement (Serialization ''String'') ''String'' True,
                type = ''UInt8'', column = Some (ColumnUInt8 [1, 0, 1, 1, 0])\<rparr>)"
  by (simp add: demo_simps resolver_simps)

lemma demo_seen:
  "getDynamicSubcolumnData demo ''Int64'' demo_with_column False =
     Inr (Some \<lparr>serialization =
                  SerializationDynamicElement (Serialization ''Int64'') ''Int64'' False,
                type = ''Nullable(Int64)'',
                column = Some (Column ''Nullable(Int64)''
                                 [''7'', ''NULL'', ''8'', ''9'', ''NULL''])\<rparr>)"
  by (simp add: demo_simps resolver_simps)

lemma demo_unseen:
  "getDynamicSubcolumnData demo ''Float64'' demo_with_column False =
     Inr (Some \<lparr>serialization =
                  SerializationDynamicElement (Serialization ''Float64'') ''Float64'' False,
                type = ''Nullable(Float64)'',
                column = Some (Column ''Nullable(Float64)''
                                 [''NULL'', ''NULL'', ''NULL'', ''NULL'', ''NULL''])\<rparr>)"
  by (simp add: demo_simps resolver_simps numeral_eq_Suc)

lemma demo_split:
  "splitName demo ''Float64.null'' = (''Float64'', ''null'')"
  "splitName demo ''Float64'' = (''Float64'', [])"
  "splitName demo ''String.null'' = (''String'', ''null'')"
  "splitName demo ''String.null.x'' = (''String'', ''null.x'')"
  "splitName demo ''Tuple(a UInt32).a'' = (''Tuple(a UInt32)'', ''a'')"
  "splitName demo ''Strin.null'' = (''Strin'', ''null'')"
  by (simp_all add: demo_def demo_splitName_def)

subsection \<open>The claims\<close>

text \<open>
  Claim C1, as amended. The claim has the wrap decided by the predicates of the resolved,
  nested type. Line 130 reads \<^verbatim>\<open>canBeInsideNullable\<close> and \<^verbatim>\<open>lowCardinality\<close> on
  \<^verbatim>\<open>subcolumn_type\<close>, the type named by the head. What holds: for a path whose non-empty
  tail is resolved by the nested resolver, the returned type is the nested type, wrapped
  by \<^verbatim>\<open>makeNullableOrLowCardinalityNullableSafe\<close> exactly when the head type can be inside
  Nullable or is low-cardinality.
\<close>

theorem nullable_by_head_type:
  assumes "splitName e path = (head, tail)" and "tryGet e head = Some t"
    and "tail \<noteq> []" and "tail \<noteq> ''null''"
    and "getDynamicSubcolumnData e path data thr = Inr (Some r)"
  shows "\<exists>res d nested.
           find_variant e t (column data) = Inr (res, d) \<and> type res = t
         \<and> getSubcolumnData e tail res thr = Inr (Some nested)
         \<and> type r =
             (if canBeInsideNullable e t \<or> lowCardinality e t
              then makeNullableOrLowCardinalityNullableSafe e (type nested)
              else type nested)"
proof -
  note r = assms(5) [unfolded resolver_found [OF assms(1,2)]]
  from r obtain res d where fv: "find_variant e t (column data) = Inr (res, d)"
    by (cases "find_variant e t (column data)") auto
  from r fv obtain nested where n: "nested_subcolumn e tail res thr = Inr (Some nested)"
    by (cases "nested_subcolumn e tail res thr") (auto split: option.splits)
  from r fv n assms(4) have "type r =
      (if canBeInsideNullable e t \<or> lowCardinality e t
       then makeNullableOrLowCardinalityNullableSafe e (type nested) else type nested)"
    by (auto dest!: materialize_keeps)
  moreover from n assms(3,4) have "getSubcolumnData e tail res thr = Inr (Some nested)"
    by (simp add: nested_subcolumn_other)
  moreover from fv have "type res = t" by (simp add: find_variant_type)
  ultimately show ?thesis using fv by blast
qed

theorem nullable_by_head_type_witness:
  "splitName demo ''Tuple(a UInt32).a'' = (''Tuple(a UInt32)'', ''a'')
   \<and> tryGet demo ''Tuple(a UInt32)'' = Some ''Tuple(a UInt32)''
   \<and> getDynamicSubcolumnData demo ''Tuple(a UInt32).a'' demo_types_only False =
       Inr (Some \<lparr>serialization =
                    SerializationDynamicElement (Serialization ''TupleElement(a)'')
                      ''Tuple(a UInt32)'' False,
                  type = ''UInt32'', column = None\<rparr>)
   \<and> (\<exists>res d nested.
         find_variant demo ''Tuple(a UInt32)'' (column demo_types_only) = Inr (res, d)
       \<and> type res = ''Tuple(a UInt32)''
       \<and> getSubcolumnData demo ''a'' res False = Inr (Some nested)
       \<and> ''UInt32'' = type nested)
   \<and> canBeInsideNullable (demo\<lparr>getSubcolumnData := demo_echo\<rparr>) ''String''
   \<and> (\<exists>res d nested.
         find_variant (demo\<lparr>getSubcolumnData := demo_echo\<rparr>) ''String''
           (column demo_with_column) = Inr (res, d)
       \<and> getSubcolumnData (demo\<lparr>getSubcolumnData := demo_echo\<rparr>) ''null.x'' res False
           = Inr (Some nested)
       \<and> ''Nullable(String)'' =
           makeNullableOrLowCardinalityNullableSafe (demo\<lparr>getSubcolumnData := demo_echo\<rparr>)
             (type nested))"
proof -
  have t: "tryGet demo ''Tuple(a UInt32)'' = Some ''Tuple(a UInt32)''"
    by (simp add: demo_def demo_tryGet_def)
  have p: "\<not> (canBeInsideNullable demo ''Tuple(a UInt32)'' \<or> lowCardinality demo ''Tuple(a UInt32)'')"
    by (simp add: demo_def demo_canBeInsideNullable_def demo_scalars_def)
  have first: "\<exists>res d nested.
      find_variant demo ''Tuple(a UInt32)'' (column demo_types_only) = Inr (res, d)
      \<and> type res = ''Tuple(a UInt32)''
      \<and> getSubcolumnData demo ''a'' res False = Inr (Some nested)
      \<and> ''UInt32'' = type nested"
    using nullable_by_head_type [OF demo_split(5) t _ _ demo_tuple_element] p by simp
  have ts: "tryGet (demo\<lparr>getSubcolumnData := demo_echo\<rparr>) ''String'' = Some ''String''"
    by (simp add: demo_def demo_tryGet_def demo_scalars_def)
  have sp: "splitName (demo\<lparr>getSubcolumnData := demo_echo\<rparr>) ''String.null.x''
      = (''String'', ''null.x'')"
    using demo_split(4) by simp
  have ps: "canBeInsideNullable (demo\<lparr>getSubcolumnData := demo_echo\<rparr>) ''String''"
    by (simp add: demo_def demo_canBeInsideNullable_def demo_scalars_def)
  have second: "\<exists>res d nested.
      find_variant (demo\<lparr>getSubcolumnData := demo_echo\<rparr>) ''String''
        (column demo_with_column) = Inr (res, d)
      \<and> getSubcolumnData (demo\<lparr>getSubcolumnData := demo_echo\<rparr>) ''null.x'' res False
          = Inr (Some nested)
      \<and> ''Nullable(String)'' =
          makeNullableOrLowCardinalityNullableSafe (demo\<lparr>getSubcolumnData := demo_echo\<rparr>)
            (type nested)"
    using nullable_by_head_type [OF sp ts _ _ demo_null_then_more_echo] ps by auto
  from first second show ?thesis
    using demo_split(5) t demo_tuple_element ps by blast
qed

theorem nullable_not_by_resolved_type:
  "getDynamicSubcolumnData demo ''Tuple(a UInt32).a'' demo_types_only False =
     Inr (Some \<lparr>serialization =
                  SerializationDynamicElement (Serialization ''TupleElement(a)'')
                    ''Tuple(a UInt32)'' False,
                type = ''UInt32'', column = None\<rparr>)
   \<and> getSubcolumnData demo ''a''
        \<lparr>serialization = Serialization ''Tuple(a UInt32)'', type = ''Tuple(a UInt32)'',
          column = None\<rparr> False =
       Inr (Some \<lparr>serialization = Serialization ''TupleElement(a)'', type = ''UInt32'',
                  column = None\<rparr>)
   \<and> canBeInsideNullable demo ''UInt32''
   \<and> spec_semantic_type demo False ''UInt32'' = ''Nullable(UInt32)''
   \<and> ''UInt32'' \<noteq> spec_semantic_type demo False ''UInt32''"
  by (simp add: demo_tuple_element)
     (simp add: spec_semantic_type_def demo_def demo_getSubcolumnData_def
        demo_canBeInsideNullable_def demo_makeNullable_def demo_scalars_def)

text \<open>
  Claim C2, as amended. The claim has every tail that begins with \<^verbatim>\<open>null\<close> treated as the
  null-map leaf. Line 116 compares the whole tail with \<^verbatim>\<open>"null"\<close>. What holds: when the
  tail is exactly \<^verbatim>\<open>null\<close> the result does not depend on the nested resolver, which is
  not called; any other non-empty tail, one that begins with \<^verbatim>\<open>null\<close> included, is
  handed whole to the nested resolver, whose null pointer or exception is the result.
\<close>

theorem null_leaf_is_exact:
  "(snd (splitName e path) = ''null'' \<longrightarrow>
      (\<forall>g. getDynamicSubcolumnData (e\<lparr>getSubcolumnData := g\<rparr>) path data thr
             = getDynamicSubcolumnData e path data thr))
   \<and> (\<forall>head tail t res d.
        splitName e path = (head, tail) \<and> tryGet e head = Some t
        \<and> find_variant e t (column data) = Inr (res, d)
        \<and> tail \<noteq> ''null'' \<and> tail \<noteq> [] \<longrightarrow>
          (getSubcolumnData e tail res thr = Inr None \<longrightarrow>
             getDynamicSubcolumnData e path data thr = Inr None)
        \<and> (\<forall>f. getSubcolumnData e tail res thr = Inl f \<longrightarrow>
             getDynamicSubcolumnData e path data thr = Inl f))"
proof -
  have "getDynamicSubcolumnData e path data thr = getSubcolumnData e tail res thr"
    if "splitName e path = (head, tail)" "tryGet e head = Some t"
      "find_variant e t (column data) = Inr (res, d)" "tail \<noteq> ''null''" "tail \<noteq> []"
      "getSubcolumnData e tail res thr = Inr None \<or> (\<exists>f. getSubcolumnData e tail res thr = Inl f)"
    for head tail t res d
    using that(3-6) unfolding resolver_found [OF that(1,2)]
    by (auto simp: nested_subcolumn_other)
  then show ?thesis
    using resolver_null_any_nested [of e path _ data thr] by (intro conjI allI impI) metis+
qed

theorem null_leaf_is_exact_witness:
  "snd (splitName demo ''String.null'') = ''null''
   \<and> getDynamicSubcolumnData (demo\<lparr>getSubcolumnData := demo_echo\<rparr>) ''String.null''
        demo_with_column False
      = getDynamicSubcolumnData demo ''String.null'' demo_with_column False
   \<and> splitName demo ''String.null.x'' = (''String'', ''null.x'')
   \<and> getSubcolumnData demo ''null.x''
        \<lparr>serialization = Serialization ''String'', type = ''String'', column = None\<rparr> False
      = Inr None
   \<and> getDynamicSubcolumnData demo ''String.null.x'' demo_types_only False = Inr None"
proof -
  have a: "snd (splitName demo ''String.null'') = ''null''"
    by (simp add: demo_split)
  have t: "tryGet demo ''String'' = Some ''String''"
    by (simp add: demo_def demo_tryGet_def demo_scalars_def)
  have fv: "find_variant demo ''String'' (column demo_types_only) =
      Inr (\<lparr>serialization = Serialization ''String'', type = ''String'', column = None\<rparr>, None)"
    by (simp add: find_variant_def demo_def demo_types_only_def)
  have n: "getSubcolumnData demo ''null.x''
      \<lparr>serialization = Serialization ''String'', type = ''String'', column = None\<rparr> False
      = Inr None"
    by (simp add: demo_def demo_getSubcolumnData_def)
  from null_leaf_is_exact [of demo "''String.null''" demo_with_column False] a
  have "getDynamicSubcolumnData (demo\<lparr>getSubcolumnData := demo_echo\<rparr>) ''String.null''
        demo_with_column False
      = getDynamicSubcolumnData demo ''String.null'' demo_with_column False"
    by blast
  moreover from null_leaf_is_exact [of demo "''String.null.x''" demo_types_only False]
    demo_split(4) t fv n
  have "getDynamicSubcolumnData demo ''String.null.x'' demo_types_only False = Inr None"
    by simp
  ultimately show ?thesis using a demo_split(4) n by simp
qed

theorem null_prefix_descends:
  "splitName demo ''String.null.x'' = (''String'', ''null.x'')
   \<and> take 4 ''null.x'' = ''null''
   \<and> getDynamicSubcolumnData demo ''String.null.x'' demo_with_column False = Inr None
   \<and> getDynamicSubcolumnData (demo\<lparr>getSubcolumnData := demo_echo\<rparr>) ''String.null.x''
        demo_with_column False
      \<noteq> getDynamicSubcolumnData demo ''String.null.x'' demo_with_column False
   \<and> getDynamicSubcolumnData demo ''String.null'' demo_with_column False =
       Inr (Some \<lparr>serialization =
                    SerializationDynamicElement (Serialization ''String'') ''String'' True,
                  type = ''UInt8'', column = Some (ColumnUInt8 [1, 0, 1, 1, 0])\<rparr>)"
  by (simp add: demo_split demo_null_then_more demo_null_then_more_echo demo_seen_null_map)

text \<open>
  Claim C4. A column is supplied and its \<^verbatim>\<open>VariantInfo\<close> does not hold the name of the
  type that the head resolves to (line 106 looks up \<^verbatim>\<open>subcolumn_type->getName()\<close>). If the
  tail is \<^verbatim>\<open>null\<close>, a descriptor is returned and its column is a \<^verbatim>\<open>ColumnUInt8\<close> with one
  byte 1 for each row of the supplied column. Otherwise every descriptor returned (one
  is returned when the tail is empty) has a column of the returned type, with that
  type's default value for each row of the supplied column.
\<close>

theorem unseen_type_column:
  assumes "splitName e path = (head, tail)" and "tryGet e head = Some t"
    and "column data = Some inst" and "inst = ColumnDynamic vi vs g2l locals"
    and "vi (getName e t) = None"
  shows "(tail = ''null'' \<longrightarrow>
           (\<exists>r. getDynamicSubcolumnData e path data thr = Inr (Some r)
              \<and> column r = Some (ColumnUInt8 (replicate (column_size inst) 1))))
       \<and> (tail = [] \<longrightarrow> (\<exists>r. getDynamicSubcolumnData e path data thr = Inr (Some r)))
       \<and> (tail \<noteq> ''null'' \<longrightarrow>
           (\<forall>r. getDynamicSubcolumnData e path data thr = Inr (Some r) \<longrightarrow>
              column r = Some (Column (type r)
                (replicate (column_size inst) (getDefault e (type r))))))"
proof -
  note unfolded = resolver_found [OF assms(1,2), of data thr, unfolded assms(3)]
  have fv: "find_variant e t (Some inst) =
      Inr (\<lparr>serialization = getDefaultSerialization e t, type = t, column = None\<rparr>, None)"
    unfolding assms(4) using assms(5) by (simp add: find_variant_unseen)
  have null: "\<exists>r. getDynamicSubcolumnData e path data thr = Inr (Some r)
      \<and> column r = Some (ColumnUInt8 (replicate (column_size inst) 1))" if "tail = ''null''"
    unfolding unfolded fv using that
    by (simp add: nested_subcolumn_null materialize_unseen)
  have empty: "\<exists>r. getDynamicSubcolumnData e path data thr = Inr (Some r)" if "tail = []"
    unfolding unfolded fv using that
    by (simp add: nested_subcolumn_empty materialize_unseen)
  have other: "column r = Some (Column (type r)
      (replicate (column_size inst) (getDefault e (type r))))"
    if "tail \<noteq> ''null''" and "getDynamicSubcolumnData e path data thr = Inr (Some r)" for r
    using that unfolding unfolded fv
    by (auto simp: materialize_unseen split: sum.splits option.splits)
  from null empty other show ?thesis by blast
qed

theorem unseen_type_column_witness:
  "tryGet demo ''Float64'' = Some ''Float64''
   \<and> column demo_with_column = Some demo_column
   \<and> column_size demo_column = 5
   \<and> (\<exists>r. getDynamicSubcolumnData demo ''Float64.null'' demo_with_column False = Inr (Some r)
         \<and> column r = Some (ColumnUInt8 [1, 1, 1, 1, 1]))
   \<and> (\<exists>r. getDynamicSubcolumnData demo ''Float64'' demo_with_column False = Inr (Some r)
         \<and> type r = ''Nullable(Float64)''
         \<and> column r = Some (Column ''Nullable(Float64)'' (replicate 5 ''NULL'')))"
proof -
  have t: "tryGet demo ''Float64'' = Some ''Float64''"
    by (simp add: demo_def demo_tryGet_def demo_scalars_def)
  have c: "column demo_with_column = Some demo_column"
    by (simp add: demo_with_column_def)
  have n: "column_size demo_column = 5"
    by (simp add: demo_column_def)
  have u: "[''Int64'' \<mapsto> 0 :: Discriminator, ''String'' \<mapsto> 1] (getName demo ''Float64'') = None"
    by (simp add: demo_def)
  note null = unseen_type_column
    [OF demo_split(1) t c demo_column_def u, of False, THEN conjunct1, rule_format, OF refl]
  note dflt = unseen_type_column
    [OF demo_split(2) t c demo_column_def u, of False, THEN conjunct2, THEN conjunct2,
      rule_format, OF _ demo_unseen]
  from null have "\<exists>r. getDynamicSubcolumnData demo ''Float64.null'' demo_with_column False
      = Inr (Some r) \<and> column r = Some (ColumnUInt8 [1, 1, 1, 1, 1])"
    by (simp add: n numeral_eq_Suc)
  moreover from dflt have "\<exists>r. getDynamicSubcolumnData demo ''Float64'' demo_with_column False
      = Inr (Some r) \<and> type r = ''Nullable(Float64)''
      \<and> column r = Some (Column ''Nullable(Float64)'' (replicate 5 ''NULL''))"
    by (simp add: demo_unseen n numeral_eq_Suc)
  ultimately show ?thesis using t c n by blast
qed

text \<open>
  Claim C6. When the head of the path is not a name of the registry, the resolver throws
  \<^verbatim>\<open>ILLEGAL_COLUMN\<close> if \<^verbatim>\<open>throw_if_null\<close> is set and returns the null pointer otherwise; in
  neither mode is there a descriptor.
\<close>

theorem unknown_head:
  "tryGet e (fst (splitName e path)) = None \<Longrightarrow>
     getDynamicSubcolumnData e path data thr =
       (if thr then Inl (Exception ILLEGAL_COLUMN) else Inr None)"
  by (cases "splitName e path") (simp add: resolver_unknown)

theorem unknown_head_witness:
  "tryGet demo (fst (splitName demo ''Strin.null'')) = None
   \<and> getDynamicSubcolumnData demo ''Strin.null'' demo_with_column True
       = Inl (Exception ILLEGAL_COLUMN)
   \<and> getDynamicSubcolumnData demo ''Strin.null'' demo_with_column False = Inr None"
proof -
  have h: "tryGet demo (fst (splitName demo ''Strin.null'')) = None"
    by (simp add: demo_split) (simp add: demo_def demo_tryGet_def demo_scalars_def)
  from unknown_head [OF h, of demo_with_column True]
    unknown_head [OF h, of demo_with_column False] h
  show ?thesis by simp
qed

text \<open>
  Claim C7. When the tail is exactly \<^verbatim>\<open>null\<close>, every descriptor returned has the type
  \<^verbatim>\<open>UInt8\<close> itself: lines 131 and 132 wrap only when the subcolumn is not the null map,
  whatever the predicates of the head type answer.
\<close>

theorem null_map_type:
  assumes "snd (splitName e path) = ''null''"
    and "getDynamicSubcolumnData e path data thr = Inr (Some r)"
  shows "type r = DataTypeUInt8 e"
proof -
  obtain head where sp: "splitName e path = (head, ''null'')"
    using assms(1) by (cases "splitName e path") simp
  from resolver_descriptor_found [OF sp assms(2)] obtain t where t: "tryGet e head = Some t" ..
  from assms(2) show ?thesis
    unfolding resolver_found [OF sp t]
    by (auto simp: nested_subcolumn_null dest!: materialize_keeps split: sum.splits prod.splits)
qed

theorem null_map_type_witness:
  "snd (splitName demo ''String.null'') = ''null''
   \<and> canBeInsideNullable demo ''String''
   \<and> getDynamicSubcolumnData demo ''String.null'' demo_with_column False =
       Inr (Some \<lparr>serialization =
                    SerializationDynamicElement (Serialization ''String'') ''String'' True,
                  type = ''UInt8'', column = Some (ColumnUInt8 [1, 0, 1, 1, 0])\<rparr>)
   \<and> ''UInt8'' = DataTypeUInt8 demo"
proof -
  have a: "snd (splitName demo ''String.null'') = ''null''"
    by (simp add: demo_split)
  have p: "canBeInsideNullable demo ''String''"
    by (simp add: demo_def demo_canBeInsideNullable_def demo_scalars_def)
  from null_map_type [OF a demo_seen_null_map] a p demo_seen_null_map
  show ?thesis by simp
qed

text \<open>
  Claim C8. The nested resolver returns a column only when given one, and the two
  creators produce one value for each local discriminator. Then every descriptor
  returned has a column if and only if the call supplied one, and the column has as many
  rows as the supplied column.
\<close>

theorem column_iff_instance:
  assumes "nested_keeps_no_column e" and "creators_row_aligned e"
    and "getDynamicSubcolumnData e path data thr = Inr (Some r)"
  shows "(column r \<noteq> None \<longleftrightarrow> column data \<noteq> None)
       \<and> (\<forall>c inst. column r = Some c \<and> column data = Some inst \<longrightarrow>
             column_size c = column_size inst)"
proof -
  obtain head tail where sp: "splitName e path = (head, tail)"
    by (cases "splitName e path")
  from resolver_descriptor_found [OF sp assms(3)] obtain t where t: "tryGet e head = Some t" ..
  note r = assms(3) [unfolded resolver_found [OF sp t]]
  show ?thesis
  proof (cases "column data")
    case None
    from r have "column r = None"
      unfolding None find_variant_no_column
      by (auto simp: materialize_no_column split: sum.splits option.splits
          dest!: nested_subcolumn_no_column [OF assms(1)])
    with None show ?thesis by simp
  next
    case (Some inst)
    from r obtain c where "column r = Some c" "column_size c = column_size inst"
      unfolding Some
      by (auto split: sum.splits option.splits prod.splits dest!: materialize_size [OF assms(2)])
    with Some show ?thesis by simp
  qed
qed

theorem column_iff_instance_witness:
  "nested_keeps_no_column demo \<and> creators_row_aligned demo
   \<and> getDynamicSubcolumnData demo ''Int64'' demo_with_column False =
       Inr (Some \<lparr>serialization =
                    SerializationDynamicElement (Serialization ''Int64'') ''Int64'' False,
                  type = ''Nullable(Int64)'',
                  column = Some (Column ''Nullable(Int64)''
                                   [''7'', ''NULL'', ''8'', ''9'', ''NULL''])\<rparr>)
   \<and> column demo_with_column = Some demo_column
   \<and> column_size (Column ''Nullable(Int64)'' [''7'', ''NULL'', ''8'', ''9'', ''NULL''])
       = column_size demo_column
   \<and> getDynamicSubcolumnData demo ''Tuple(a UInt32).a'' demo_types_only False =
       Inr (Some \<lparr>serialization =
                    SerializationDynamicElement (Serialization ''TupleElement(a)'')
                      ''Tuple(a UInt32)'' False,
                  type = ''UInt32'', column = None\<rparr>)
   \<and> column demo_types_only = None"
proof -
  have c: "column demo_with_column = Some demo_column"
    by (simp add: demo_with_column_def)
  have n: "column demo_types_only = None"
    by (simp add: demo_types_only_def)
  from column_iff_instance
    [OF demo_nested_keeps_no_column demo_creators_row_aligned demo_seen] c
  have "column_size (Column ''Nullable(Int64)'' [''7'', ''NULL'', ''8'', ''9'', ''NULL''])
      = column_size demo_column"
    by simp
  moreover note column_iff_instance
    [OF demo_nested_keeps_no_column demo_creators_row_aligned demo_tuple_element]
  ultimately show ?thesis
    using demo_nested_keeps_no_column demo_creators_row_aligned demo_seen demo_tuple_element c n
    by simp
qed

end
